theory Spec2Isabelle
  imports Complex_Main
begin

section \<open>Microstock metadata validator (validatorService.validateMetadata)\<close>

text \<open>
  A shallow embedding of \<^verbatim>\<open>validateMetadata\<close> and of the JavaScript built-ins it calls.

  \<^item> A JavaScript string is a sequence of UTF-16 code units. The model uses \<open>string\<close>,
    whose characters are the code units \<open>0x00\<close> to \<open>0xFF\<close> (ASCII and Latin-1); on that
    alphabet \<^verbatim>\<open>length\<close>, \<^verbatim>\<open>trim\<close>, \<^verbatim>\<open>toLowerCase\<close>, \<^verbatim>\<open>includes\<close> and
    \<^verbatim>\<open>split(/\s+/)\<close> are modelled exactly. Code units above \<open>0xFF\<close> are outside the model.
  \<^item> The running \<^verbatim>\<open>score\<close> is a JavaScript number. Every value it takes is a multiple
    of one half far below \<open>2^53\<close>, so the floating-point arithmetic is exact and the
    model computes in \<open>rat\<close>.
  \<^item> \<^verbatim>\<open>validateMetadata\<close> reads its argument and the constant denylist and nothing else
    (no clock, no random source, no variable outside the function is read or written), so
    it is embedded as a function of its argument. That two calls on the same input agree
    is therefore built into the embedding and is not a theorem of this theory.
  \<^item> The three local variables \<^verbatim>\<open>score\<close>, \<^verbatim>\<open>issues\<close>, \<^verbatim>\<open>recommendations\<close> are threaded
    through the rule blocks as one \<open>ValidationResult\<close> record, in the order of the source.
\<close>

subsection \<open>Types (types.ts)\<close>

datatype ContentType = Photography | Illustration | Render3D | Vector

record KeywordAnalysis =
  broad :: "string list"
  medium :: "string list"
  niche :: "string list"
  trending :: "string list"

record ImageMetadata =
  title :: string
  description :: string
  "keywords" :: "string list"
  category :: string
  contentType :: ContentType
  isAI :: bool
  author :: string
  keywordAnalysis :: "KeywordAnalysis option"

datatype IssueType = error | warning | info

record ValidationIssue =
  type :: IssueType
  message :: string
  field :: "string option"

record ValidationResult =
  score :: rat
  issues :: "ValidationIssue list"
  recommendations :: "string list"

subsection \<open>JavaScript built-ins\<close>

text \<open>\<^verbatim>\<open>\s\<close> and \<^verbatim>\<open>trim\<close> use the same set (WhiteSpace and LineTerminator): below \<open>0x100\<close>
  these are TAB, LF, VT, FF, CR, SPACE and NBSP.\<close>

definition isWhiteSpace :: "char \<Rightarrow> bool" where
  "isWhiteSpace c \<longleftrightarrow>
     c = CHR 0x09 \<or> c = CHR 0x0A \<or> c = CHR 0x0B \<or> c = CHR 0x0C \<or> c = CHR 0x0D \<or>
     c = CHR 0x20 \<or> c = CHR 0xA0"

text \<open>\<^verbatim>\<open>String.prototype.trim\<close>.\<close>

definition trim :: "string \<Rightarrow> string" where
  "trim s = rev (dropWhile isWhiteSpace (rev (dropWhile isWhiteSpace s)))"

text \<open>\<^verbatim>\<open>String.prototype.toLowerCase\<close>: \<open>A\<close>--\<open>Z\<close> and the Latin-1 capitals
  \<open>0xC0\<close>--\<open>0xDE\<close> (without the multiplication sign \<open>0xD7\<close>) move up by 32.\<close>

definition toLowerChar :: "char \<Rightarrow> char" where
  "toLowerChar c =
     (let n = (of_char c :: nat) in
      if (65 \<le> n \<and> n \<le> 90) \<or> (192 \<le> n \<and> n \<le> 222 \<and> n \<noteq> 215)
      then char_of (n + 32) else c)"

definition toLowerCase :: "string \<Rightarrow> string" where
  "toLowerCase s = map toLowerChar s"

text \<open>\<^verbatim>\<open>s.startsWith(t)\<close> and \<^verbatim>\<open>s.includes(t)\<close>: \<open>t\<close> occurs in \<open>s\<close> as a contiguous
  substring; the empty string occurs everywhere.\<close>

fun startsWith :: "string \<Rightarrow> string \<Rightarrow> bool" where
  "startsWith s [] = True"
| "startsWith [] (d # t) = False"
| "startsWith (c # s) (d # t) = (c = d \<and> startsWith s t)"

fun includes_str :: "string \<Rightarrow> string \<Rightarrow> bool" where
  "includes_str [] t = (t = [])"
| "includes_str (c # s) t = (startsWith (c # s) t \<or> includes_str s t)"

text \<open>\<^verbatim>\<open>s.split(/\s+/)\<close>: the pieces between the maximal runs of white space. \<open>cur\<close> is
  the piece being read. The empty string gives one empty piece, and white space at either
  end gives an empty piece there.\<close>

function split_ws :: "string \<Rightarrow> string \<Rightarrow> string list" where
  "split_ws cur [] = [cur]"
| "split_ws cur (c # cs) =
     (if isWhiteSpace c then cur # split_ws [] (dropWhile isWhiteSpace cs)
      else split_ws (cur @ [c]) cs)"
  by pat_completeness auto
termination
  by (relation "measure (\<lambda>(cur, s). length s)")
     (auto simp: le_imp_less_Suc length_dropWhile_le)

definition split :: "string \<Rightarrow> string list" where
  "split s = split_ws [] s"

text \<open>\<^verbatim>\<open>xs.join(sep)\<close>.\<close>

fun join :: "string list \<Rightarrow> string \<Rightarrow> string" where
  "join [] sep = []"
| "join [x] sep = x"
| "join (x # y # xs) sep = x @ sep @ join (y # xs) sep"

text \<open>An integer-valued number inside a template literal: its decimal digits, with a
  minus sign when negative.\<close>

definition digitChar :: "nat \<Rightarrow> char" where
  "digitChar d = char_of (48 + d)"

function natToString :: "nat \<Rightarrow> string" where
  "natToString n =
     (if n < 10 then [digitChar n] else natToString (n div 10) @ [digitChar (n mod 10)])"
  by pat_completeness auto
termination
  by (relation "measure id") auto

declare natToString.simps [simp del]

definition numberToString :: "int \<Rightarrow> string" where
  "numberToString i =
     (if i < 0 then CHR ''-'' # natToString (nat (- i)) else natToString (nat i))"

text \<open>\<^verbatim>\<open>Math.round\<close>: the nearest integer, a tie going towards plus infinity.\<close>

definition mathRound :: "rat \<Rightarrow> int" where
  "mathRound x = \<lfloor>x + 1 / 2\<rfloor>"

text \<open>\<^verbatim>\<open>new Set(xs).size\<close>: the number of distinct elements.\<close>

definition setSize :: "string list \<Rightarrow> nat" where
  "setSize xs = length (remdups xs)"

subsection \<open>The denylist\<close>

definition BANNED_KEYWORDS :: "string list" where
  "BANNED_KEYWORDS =
    [''iphone'', ''ipad'', ''apple'', ''macbook'', ''ios'', ''airpods'',
     ''android'', ''google'', ''pixel'', ''samsung'', ''galaxy'', ''windows'', ''microsoft'',
     ''facebook'', ''instagram'', ''twitter'', ''tiktok'', ''whatsapp'', ''youtube'', ''linkedin'',
     ''adobe'', ''photoshop'', ''illustrator'', ''zoom'', ''skype'',
     ''bmw'', ''mercedes'', ''audi'', ''tesla'', ''ferrari'', ''porsche'', ''lamborghini'',
     ''toyota'', ''honda'', ''ford'', ''jeep'',
     ''nike'', ''adidas'', ''puma'', ''reebok'', ''gucci'', ''prada'', ''louis vuitton'',
     ''chanel'', ''zara'', ''h&m'',
     ''disney'', ''marvel'', ''dc comics'', ''star wars'', ''lego'', ''barbie'', ''hot wheels'',
     ''nerf'', ''mickey mouse'',
     ''coca-cola'', ''pepsi'', ''coke'', ''mcdonalds'', ''starbucks'', ''kfc'', ''burger king'',
     ''canon'', ''nikon'', ''sony'', ''fujifilm'', ''leica'', ''gopro'']"

subsection \<open>The issues and recommendations that validateMetadata can emit\<close>

text \<open>Each object literal pushed onto \<^verbatim>\<open>issues\<close> and each string pushed onto
  \<^verbatim>\<open>recommendations\<close>, with the numbers and lists its template literal interpolates.\<close>

definition titleTooLong :: "int \<Rightarrow> ValidationIssue" where
  "titleTooLong titleLen =
     \<lparr>type = error,
      message = ''Title is too long ('' @ numberToString titleLen @
                ''/70 chars). It will be truncated on Adobe Stock.'',
      field = Some ''title''\<rparr>"

definition titleTooShort :: ValidationIssue where
  "titleTooShort =
     \<lparr>type = warning,
      message = ''Title is too short. Use descriptive phrases for better SEO.'',
      field = Some ''title''\<rparr>"

definition titleFewWords :: ValidationIssue where
  "titleFewWords =
     \<lparr>type = warning,
      message = ''Title word count is low (< 5 words).'',
      field = Some ''title''\<rparr>"

definition descriptionSparse :: ValidationIssue where
  "descriptionSparse =
     \<lparr>type = warning,
      message = ''Description is very sparse. Aim for 2-3 complete sentences.'',
      field = Some ''description''\<rparr>"

definition tooFewKeywords :: "int \<Rightarrow> ValidationIssue" where
  "tooFewKeywords keywordCount =
     \<lparr>type = error,
      message = ''Found only '' @ numberToString keywordCount @
                '' keywords. Minimum 30 required for optimal visibility.'',
      field = Some ''keywords''\<rparr>"

definition addKeywords :: "int \<Rightarrow> string" where
  "addKeywords missing =
     ''Add '' @ numberToString missing @ '' more keywords to reach the minimum of 30.''"

definition tooManyKeywords :: "int \<Rightarrow> ValidationIssue" where
  "tooManyKeywords keywordCount =
     \<lparr>type = error,
      message = ''Found '' @ numberToString keywordCount @
                '' keywords. Max 50 allowed on most platforms.'',
      field = Some ''keywords''\<rparr>"

definition removeKeywords :: "int \<Rightarrow> string" where
  "removeKeywords extra = ''Remove '' @ numberToString extra @ '' least relevant keywords.''"

definition duplicateKeywords :: "int \<Rightarrow> ValidationIssue" where
  "duplicateKeywords diff =
     \<lparr>type = warning,
      message = ''Found '' @ numberToString diff @ '' duplicate keywords.'',
      field = Some ''keywords''\<rparr>"

definition removeDuplicates :: string where
  "removeDuplicates = ''Remove duplicate keywords to save space for unique terms.''"

definition shortKeywords :: "int \<Rightarrow> string \<Rightarrow> ValidationIssue" where
  "shortKeywords n example =
     \<lparr>type = info,
      message = numberToString n @ '' keywords are very short/generic (e.g. '' @
                [CHR 0x22] @ example @ [CHR 0x22] @ '').'',
      field = Some ''keywords''\<rparr>"

definition replaceShort :: string where
  "replaceShort = ''Replace short 2-letter keywords with more specific terms.''"

definition brandViolation :: "string list \<Rightarrow> ValidationIssue" where
  "brandViolation found =
     \<lparr>type = error,
      message = ''Potential Trademark/Brand Violation: '' @ join found '', '' @
                ''. Commercial stock must be free of brands.'',
      field = Some ''keywords''\<rparr>"

definition removeBrands :: "string list \<Rightarrow> string" where
  "removeBrands found = ''Remove all instances of: '' @ join found '', '' @ ''.''"

definition aiFlagFalse :: ValidationIssue where
  "aiFlagFalse =
     \<lparr>type = warning,
      message = ''isAI flag is false. Most platforms now require marking AI content explicitly.'',
      field = Some ''isAI''\<rparr>"

definition authorPlaceholder :: ValidationIssue where
  "authorPlaceholder =
     \<lparr>type = info,
      message = ''Author field does not contain dynamic placeholder.'',
      field = Some ''author''\<rparr>"

subsection \<open>The rule blocks of validateMetadata, in source order\<close>

text \<open>Appending an issue or a recommendation, and lowering the score.\<close>

definition pushIssue :: "ValidationIssue \<Rightarrow> ValidationResult \<Rightarrow> ValidationResult" where
  "pushIssue i r = r\<lparr>issues := issues r @ [i]\<rparr>"

definition pushRecommendation :: "string \<Rightarrow> ValidationResult \<Rightarrow> ValidationResult" where
  "pushRecommendation x r = r\<lparr>recommendations := recommendations r @ [x]\<rparr>"

definition subScore :: "rat \<Rightarrow> ValidationResult \<Rightarrow> ValidationResult" where
  "subScore p r = r\<lparr>score := score r - p\<rparr>"

text \<open>1. Title: length, then word count.\<close>

definition checkTitleLength :: "ImageMetadata \<Rightarrow> ValidationResult \<Rightarrow> ValidationResult" where
  "checkTitleLength metadata r =
     (let titleLen = int (length (title metadata)) in
      if titleLen > 70 then subScore 15 (pushIssue (titleTooLong titleLen) r)
      else if titleLen < 20 then subScore 5 (pushIssue titleTooShort r)
      else r)"

definition checkTitleWords :: "ImageMetadata \<Rightarrow> ValidationResult \<Rightarrow> ValidationResult" where
  "checkTitleWords metadata r =
     (let titleWords = int (length (split (title metadata))) in
      if titleWords < 5 then subScore 5 (pushIssue titleFewWords r)
      else r)"

text \<open>2. Description.\<close>

definition checkDescription :: "ImageMetadata \<Rightarrow> ValidationResult \<Rightarrow> ValidationResult" where
  "checkDescription metadata r =
     (let descWords = int (length (split (description metadata))) in
      if descWords < 10 then subScore 10 (pushIssue descriptionSparse r)
      else r)"

text \<open>3. Keywords: count.\<close>

definition checkKeywordCount :: "ImageMetadata \<Rightarrow> ValidationResult \<Rightarrow> ValidationResult" where
  "checkKeywordCount metadata r =
     (let keywordCount = int (length (keywords metadata)) in
      if keywordCount < 30 then
        (let missing = 30 - keywordCount in
         pushRecommendation (addKeywords missing)
           (subScore (of_int missing * (3 / 2)) (pushIssue (tooFewKeywords keywordCount) r)))
      else if keywordCount > 50 then
        (let extra = keywordCount - 50 in
         pushRecommendation (removeKeywords extra)
           (subScore (of_int extra * 2) (pushIssue (tooManyKeywords keywordCount) r)))
      else r)"

text \<open>3. Keywords: duplicates (case-insensitive).\<close>

definition uniqueKeywords :: "ImageMetadata \<Rightarrow> string list" where
  "uniqueKeywords metadata = map (\<lambda>k. trim (toLowerCase k)) (keywords metadata)"

definition checkDuplicates :: "ImageMetadata \<Rightarrow> ValidationResult \<Rightarrow> ValidationResult" where
  "checkDuplicates metadata r =
     (if setSize (uniqueKeywords metadata) \<noteq> length (keywords metadata) then
        (let diff = int (length (keywords metadata)) - int (setSize (uniqueKeywords metadata)) in
         pushRecommendation removeDuplicates
           (subScore (of_int diff * 3) (pushIssue (duplicateKeywords diff) r)))
      else r)"

text \<open>3. Keywords: very short ones. \<^verbatim>\<open>tooShortKeywords[0]\<close> is read only when the list
  has more than three elements.\<close>

definition tooShortKeywords :: "ImageMetadata \<Rightarrow> string list" where
  "tooShortKeywords metadata = filter (\<lambda>k. length k < 3) (keywords metadata)"

definition checkShortKeywords :: "ImageMetadata \<Rightarrow> ValidationResult \<Rightarrow> ValidationResult" where
  "checkShortKeywords metadata r =
     (if length (tooShortKeywords metadata) > 3 then
        pushRecommendation replaceShort
          (pushIssue
            (shortKeywords (int (length (tooShortKeywords metadata)))
               (hd (tooShortKeywords metadata))) r)
      else r)"

text \<open>4. Risk / content compliance.\<close>

definition foundBanned :: "ImageMetadata \<Rightarrow> string list" where
  "foundBanned metadata =
     (let lowerTitle = toLowerCase (title metadata);
          lowerDesc = toLowerCase (description metadata);
          lowerKeywords = map toLowerCase (keywords metadata)
      in filter (\<lambda>banned.
           list_ex (\<lambda>k. includes_str k banned) lowerKeywords \<or>
           includes_str lowerTitle banned \<or>
           includes_str lowerDesc banned) BANNED_KEYWORDS)"

definition checkBanned :: "ImageMetadata \<Rightarrow> ValidationResult \<Rightarrow> ValidationResult" where
  "checkBanned metadata r =
     (if length (foundBanned metadata) > 0 then
        pushRecommendation (removeBrands (foundBanned metadata))
          (subScore (25 * of_nat (length (foundBanned metadata)))
            (pushIssue (brandViolation (foundBanned metadata)) r))
      else r)"

text \<open>5. Technical / format checks.\<close>

definition checkIsAI :: "ImageMetadata \<Rightarrow> ValidationResult \<Rightarrow> ValidationResult" where
  "checkIsAI metadata r =
     (if \<not> isAI metadata then subScore 10 (pushIssue aiFlagFalse r) else r)"

definition checkAuthor :: "ImageMetadata \<Rightarrow> ValidationResult \<Rightarrow> ValidationResult" where
  "checkAuthor metadata r =
     (if \<not> includes_str (author metadata) ''{{author}}'' then pushIssue authorPlaceholder r
      else r)"

text \<open>Clamp score.\<close>

definition clampScore :: "ValidationResult \<Rightarrow> ValidationResult" where
  "clampScore r = r\<lparr>score := of_int (max 0 (min 100 (mathRound (score r))))\<rparr>"

subsection \<open>validateMetadata\<close>

definition initial :: ValidationResult where
  "initial = \<lparr>score = 100, issues = [], recommendations = []\<rparr>"

text \<open>The accumulated state just before the clamp.\<close>

definition runChecks :: "ImageMetadata \<Rightarrow> ValidationResult" where
  "runChecks metadata =
     checkAuthor metadata (checkIsAI metadata (checkBanned metadata
       (checkShortKeywords metadata (checkDuplicates metadata (checkKeywordCount metadata
         (checkDescription metadata (checkTitleWords metadata
           (checkTitleLength metadata initial))))))))"

definition validateMetadata :: "ImageMetadata \<Rightarrow> ValidationResult" where
  "validateMetadata metadata = clampScore (runChecks metadata)"

subsection \<open>Sample inputs\<close>

text \<open>Concrete metadata records on which the theorems below are instantiated.\<close>

definition sampleKeywords :: "string list" where
  "sampleKeywords =
    [''sun'', ''sky'', ''sea'', ''bay'', ''oak'', ''elm'', ''fog'', ''dew'', ''ice'', ''hill'',
     ''lake'', ''pond'', ''rock'', ''sand'', ''wave'', ''tide'', ''reef'', ''moss'', ''fern'', ''leaf'',
     ''bark'', ''root'', ''seed'', ''bud'', ''rain'', ''snow'', ''wind'', ''mist'', ''dawn'', ''dusk'']"

definition sampleMetadata :: ImageMetadata where
  "sampleMetadata =
     \<lparr>title = ''Golden sunset over calm mountain lake'',
      description = ''A calm lake at dusk with hills and trees in soft light'',
      keywords = sampleKeywords,
      category = ''Nature'',
      contentType = Photography,
      isAI = True,
      author = ''{{author}}'',
      keywordAnalysis = None\<rparr>"

definition fourShortKeywords :: ImageMetadata where
  "fourShortKeywords =
     sampleMetadata\<lparr>keywords := [''aa'', ''bb'', ''cc'', ''dd''] @ drop 4 sampleKeywords\<rparr>"












definition manyBrands :: ImageMetadata where
  "manyBrands =
     \<lparr>title = ''nike adidas puma reebok gucci prada'',
      description = [],
      keywords = [],
      category = [],
      contentType = Photography,
      isAI = False,
      author = [],
      keywordAnalysis = None\<rparr>"




section \<open>Auxiliary facts\<close>

subsection \<open>The emitted issues\<close>



lemmas push_defs = pushIssue_def pushRecommendation_def subScore_def

subsection \<open>What each rule block appends to the issue list\<close>

lemma checkTitleLength_issues:
  "issues (checkTitleLength m r) = issues r @
     (if length (title m) > 70 then [titleTooLong (int (length (title m)))]
      else if length (title m) < 20 then [titleTooShort] else [])"
  by (simp add: checkTitleLength_def push_defs Let_def)

lemma checkTitleWords_issues:
  "issues (checkTitleWords m r) = issues r @
     (if length (split (title m)) < 5 then [titleFewWords] else [])"
  by (simp add: checkTitleWords_def push_defs Let_def)

lemma checkDescription_issues:
  "issues (checkDescription m r) = issues r @
     (if length (split (description m)) < 10 then [descriptionSparse] else [])"
  by (simp add: checkDescription_def push_defs Let_def)

lemma checkKeywordCount_issues:
  "issues (checkKeywordCount m r) = issues r @
     (if length (keywords m) < 30 then [tooFewKeywords (int (length (keywords m)))]
      else if length (keywords m) > 50 then [tooManyKeywords (int (length (keywords m)))]
      else [])"
  by (simp add: checkKeywordCount_def push_defs Let_def)

lemma checkDuplicates_issues:
  "issues (checkDuplicates m r) = issues r @
     (if setSize (uniqueKeywords m) \<noteq> length (keywords m)
      then [duplicateKeywords (int (length (keywords m)) - int (setSize (uniqueKeywords m)))]
      else [])"
  by (simp add: checkDuplicates_def push_defs Let_def)

lemma checkShortKeywords_issues:
  "issues (checkShortKeywords m r) = issues r @
     (if length (tooShortKeywords m) > 3
      then [shortKeywords (int (length (tooShortKeywords m))) (hd (tooShortKeywords m))]
      else [])"
  by (simp add: checkShortKeywords_def push_defs Let_def)

lemma checkBanned_issues:
  "issues (checkBanned m r) = issues r @
     (if foundBanned m \<noteq> [] then [brandViolation (foundBanned m)] else [])"
  by (simp add: checkBanned_def push_defs Let_def)

lemma checkIsAI_issues:
  "issues (checkIsAI m r) = issues r @ (if \<not> isAI m then [aiFlagFalse] else [])"
  by (simp add: checkIsAI_def push_defs)

lemma checkAuthor_issues:
  "issues (checkAuthor m r) = issues r @
     (if \<not> includes_str (author m) ''{{author}}'' then [authorPlaceholder] else [])"
  by (simp add: checkAuthor_def push_defs)

lemmas check_issues = checkTitleLength_issues checkTitleWords_issues checkDescription_issues
  checkKeywordCount_issues checkDuplicates_issues checkShortKeywords_issues checkBanned_issues
  checkIsAI_issues checkAuthor_issues

lemma issues_clampScore: "issues (clampScore r) = issues r"
  by (simp add: clampScore_def)

lemma issues_initial: "issues initial = []"
  by (simp add: initial_def)

lemma issues_validateMetadata:
  "issues (validateMetadata m) =
     (if length (title m) > 70 then [titleTooLong (int (length (title m)))]
      else if length (title m) < 20 then [titleTooShort] else []) @
     (if length (split (title m)) < 5 then [titleFewWords] else []) @
     (if length (split (description m)) < 10 then [descriptionSparse] else []) @
     (if length (keywords m) < 30 then [tooFewKeywords (int (length (keywords m)))]
      else if length (keywords m) > 50 then [tooManyKeywords (int (length (keywords m)))]
      else []) @
     (if setSize (uniqueKeywords m) \<noteq> length (keywords m)
      then [duplicateKeywords (int (length (keywords m)) - int (setSize (uniqueKeywords m)))]
      else []) @
     (if length (tooShortKeywords m) > 3
      then [shortKeywords (int (length (tooShortKeywords m))) (hd (tooShortKeywords m))]
      else []) @
     (if foundBanned m \<noteq> [] then [brandViolation (foundBanned m)] else []) @
     (if \<not> isAI m then [aiFlagFalse] else []) @
     (if \<not> includes_str (author m) ''{{author}}'' then [authorPlaceholder] else [])"
  unfolding validateMetadata_def runChecks_def
  by (simp only: issues_clampScore check_issues issues_initial append_Nil append_assoc)


subsection \<open>Built-ins\<close>






lemma setSize_eq_length_iff: "setSize xs = length xs \<longleftrightarrow> distinct xs"
  by (simp add: setSize_def)

lemma length_uniqueKeywords: "length (uniqueKeywords m) = length (keywords m)"
  by (simp add: uniqueKeywords_def)


lemma mathRound_of_int: "mathRound (of_int n) = n"
  unfolding mathRound_def by linarith

subsection \<open>What each rule block does to the score and the recommendations\<close>

lemma checkTitleLength_score:
  "score (checkTitleLength m r) = score r -
     (if length (title m) > 70 then 15 else if length (title m) < 20 then 5 else 0)"
  by (simp add: checkTitleLength_def push_defs Let_def)

lemma checkTitleWords_score:
  "score (checkTitleWords m r) = score r - (if length (split (title m)) < 5 then 5 else 0)"
  by (simp add: checkTitleWords_def push_defs Let_def)

lemma checkDescription_score:
  "score (checkDescription m r) = score r - (if length (split (description m)) < 10 then 10 else 0)"
  by (simp add: checkDescription_def push_defs Let_def)

lemma checkKeywordCount_score:
  "score (checkKeywordCount m r) = score r -
     (if length (keywords m) < 30 then of_int (30 - int (length (keywords m))) * (3 / 2)
      else if length (keywords m) > 50 then of_int (int (length (keywords m)) - 50) * 2
      else 0)"
  by (simp add: checkKeywordCount_def push_defs Let_def)

lemma checkDuplicates_score:
  "score (checkDuplicates m r) = score r -
     (if setSize (uniqueKeywords m) \<noteq> length (keywords m)
      then of_int (int (length (keywords m)) - int (setSize (uniqueKeywords m))) * 3 else 0)"
  by (simp add: checkDuplicates_def push_defs Let_def)

lemma checkShortKeywords_score: "score (checkShortKeywords m r) = score r"
  by (simp add: checkShortKeywords_def push_defs)

lemma checkBanned_score:
  "score (checkBanned m r) = score r -
     (if foundBanned m \<noteq> [] then 25 * of_nat (length (foundBanned m)) else 0)"
  by (simp add: checkBanned_def push_defs)

lemma checkIsAI_score: "score (checkIsAI m r) = score r - (if \<not> isAI m then 10 else 0)"
  by (simp add: checkIsAI_def push_defs)

lemma checkAuthor_score: "score (checkAuthor m r) = score r"
  by (simp add: checkAuthor_def push_defs)

lemmas check_score = checkTitleLength_score checkTitleWords_score checkDescription_score
  checkKeywordCount_score checkDuplicates_score checkShortKeywords_score checkBanned_score
  checkIsAI_score checkAuthor_score

lemma score_initial: "score initial = 100"
  by (simp add: initial_def)

lemma score_runChecks:
  "score (runChecks m) = 100 -
     (if length (title m) > 70 then 15 else if length (title m) < 20 then 5 else 0) -
     (if length (split (title m)) < 5 then 5 else 0) -
     (if length (split (description m)) < 10 then 10 else 0) -
     (if length (keywords m) < 30 then of_int (30 - int (length (keywords m))) * (3 / 2)
      else if length (keywords m) > 50 then of_int (int (length (keywords m)) - 50) * 2
      else 0) -
     (if setSize (uniqueKeywords m) \<noteq> length (keywords m)
      then of_int (int (length (keywords m)) - int (setSize (uniqueKeywords m))) * 3 else 0) -
     (if foundBanned m \<noteq> [] then 25 * of_nat (length (foundBanned m)) else 0) -
     (if \<not> isAI m then 10 else 0)"
  unfolding runChecks_def by (simp only: check_score score_initial)

lemma score_validateMetadata:
  "score (validateMetadata m) = of_int (max 0 (min 100 (mathRound (score (runChecks m)))))"
  by (simp add: validateMetadata_def clampScore_def)

lemma checkKeywordCount_recommendations:
  "recommendations (checkKeywordCount m r) = recommendations r @
     (if length (keywords m) < 30 then [addKeywords (30 - int (length (keywords m)))]
      else if length (keywords m) > 50 then [removeKeywords (int (length (keywords m)) - 50)]
      else [])"
  by (simp add: checkKeywordCount_def push_defs Let_def)

lemma checkDuplicates_recommendations:
  "recommendations (checkDuplicates m r) = recommendations r @
     (if setSize (uniqueKeywords m) \<noteq> length (keywords m) then [removeDuplicates] else [])"
  by (simp add: checkDuplicates_def push_defs Let_def)

lemma checkShortKeywords_recommendations:
  "recommendations (checkShortKeywords m r) = recommendations r @
     (if length (tooShortKeywords m) > 3 then [replaceShort] else [])"
  by (simp add: checkShortKeywords_def push_defs)

lemma checkBanned_recommendations:
  "recommendations (checkBanned m r) = recommendations r @
     (if foundBanned m \<noteq> [] then [removeBrands (foundBanned m)] else [])"
  by (simp add: checkBanned_def push_defs)

lemma check_recommendations_same:
  "recommendations (checkTitleLength m r) = recommendations r"
  "recommendations (checkTitleWords m r) = recommendations r"
  "recommendations (checkDescription m r) = recommendations r"
  "recommendations (checkIsAI m r) = recommendations r"
  "recommendations (checkAuthor m r) = recommendations r"
  by (simp_all add: checkTitleLength_def checkTitleWords_def checkDescription_def checkIsAI_def
      checkAuthor_def push_defs Let_def)

lemma recommendations_validateMetadata:
  "recommendations (validateMetadata m) =
     (if length (keywords m) < 30 then [addKeywords (30 - int (length (keywords m)))]
      else if length (keywords m) > 50 then [removeKeywords (int (length (keywords m)) - 50)]
      else []) @
     (if setSize (uniqueKeywords m) \<noteq> length (keywords m) then [removeDuplicates] else []) @
     (if length (tooShortKeywords m) > 3 then [replaceShort] else []) @
     (if foundBanned m \<noteq> [] then [removeBrands (foundBanned m)] else [])"
proof -
  have "recommendations (clampScore r) = recommendations r" for r
    by (simp add: clampScore_def)
  moreover have "recommendations initial = []"
    by (simp add: initial_def)
  ultimately show ?thesis
    unfolding validateMetadata_def runChecks_def
    by (simp only: check_recommendations_same checkKeywordCount_recommendations
        checkDuplicates_recommendations checkShortKeywords_recommendations
        checkBanned_recommendations append_Nil append_assoc)
qed

subsection \<open>The denylist search\<close>

lemma foundBanned_set:
  "set (foundBanned m) =
     {b \<in> set BANNED_KEYWORDS.
        includes_str (toLowerCase (title m)) b \<or> includes_str (toLowerCase (description m)) b \<or>
        (\<exists>k\<in>set (keywords m). includes_str (toLowerCase k) b)}"
  by (auto simp: foundBanned_def Let_def list_ex_iff)


subsection \<open>Telling issues apart\<close>





subsection \<open>Pieces of a split and words\<close>






lemma foundBanned_Nil_iff:
  "foundBanned m = [] \<longleftrightarrow>
     (\<forall>b\<in>set BANNED_KEYWORDS.
        \<not> includes_str (toLowerCase (title m)) b \<and>
        \<not> includes_str (toLowerCase (description m)) b \<and>
        (\<forall>k\<in>set (keywords m). \<not> includes_str (toLowerCase k) b))"
proof -
  have "foundBanned m = [] \<longleftrightarrow> set (foundBanned m) = {}"
    by simp
  also have "\<dots> \<longleftrightarrow> (\<forall>b\<in>set BANNED_KEYWORDS.
        \<not> includes_str (toLowerCase (title m)) b \<and>
        \<not> includes_str (toLowerCase (description m)) b \<and>
        (\<forall>k\<in>set (keywords m). \<not> includes_str (toLowerCase k) b))"
    unfolding foundBanned_set by blast
  finally show ?thesis .
qed


section \<open>Properties\<close>

subsection \<open>Score range\<close>

text \<open>
  C1. For every metadata record the returned score is an integer between 0 and 100,
  however negative the accumulated score has become before the clamp.
\<close>

theorem validateMetadata_score_range:
  "score (validateMetadata metadata) \<in> \<int> \<and>
   0 \<le> score (validateMetadata metadata) \<and> score (validateMetadata metadata) \<le> 100"
  by (simp add: validateMetadata_def clampScore_def)

text \<open>
  An instance: six denylisted brands in the title, no description, no keywords and no
  AI flag bring the accumulated score to \<open>-115\<close>; the returned score is 0.
\<close>

theorem validateMetadata_score_range_witness:
  "score (runChecks manyBrands) = - 115 \<and>
   score (validateMetadata manyBrands) = 0 \<and>
   score (validateMetadata manyBrands) \<in> \<int> \<and>
   0 \<le> score (validateMetadata manyBrands) \<and> score (validateMetadata manyBrands) \<le> 100"
proof -
  have raw: "score (runChecks manyBrands) = - 115"
    by code_simp
  have final: "score (validateMetadata manyBrands) = 0"
    by code_simp
  show ?thesis
    using validateMetadata_score_range [of manyBrands] raw final by simp
qed

subsection \<open>Fully compliant metadata\<close>

text \<open>
  C2, as the code has it. Let the title have between 20 and 70 characters and at least
  5 words, the description at least 10 words, the keyword list between 30 and 50 entries
  that are pairwise different after lower-casing and trimming, no denylisted term occur in
  the lower-cased title, description or keywords, \<open>isAI\<close> be true and the author contain
  \<open>{{author}}\<close>. Then the score is 100. The issue list is empty when at most three
  keywords are shorter than three characters; with four or more such keywords it is not
  empty (the short-keyword note is emitted, without penalty).
\<close>

theorem compliant_metadata_full_score:
  assumes "20 \<le> length (title m)" and "length (title m) \<le> 70"
    and "5 \<le> length (split (title m))"
    and "10 \<le> length (split (description m))"
    and "30 \<le> length (keywords m)" and "length (keywords m) \<le> 50"
    and "distinct (map (\<lambda>k. trim (toLowerCase k)) (keywords m))"
    and "\<forall>b\<in>set BANNED_KEYWORDS.
           \<not> includes_str (toLowerCase (title m)) b \<and>
           \<not> includes_str (toLowerCase (description m)) b \<and>
           (\<forall>k\<in>set (keywords m). \<not> includes_str (toLowerCase k) b)"
    and "isAI m"
    and "includes_str (author m) ''{{author}}''"
  shows "score (validateMetadata m) = 100 \<and>
         (length (filter (\<lambda>k. length k < 3) (keywords m)) \<le> 3 \<longrightarrow>
            issues (validateMetadata m) = [] \<and> recommendations (validateMetadata m) = []) \<and>
         (length (filter (\<lambda>k. length k < 3) (keywords m)) > 3 \<longrightarrow>
            issues (validateMetadata m) \<noteq> [])"
proof -
  have "set (foundBanned m) = {}"
    using assms(8) by (auto simp: foundBanned_set)
  then have fb: "foundBanned m = []"
    by simp
  have "distinct (uniqueKeywords m)"
    using assms(7) by (simp add: uniqueKeywords_def)
  then have "setSize (uniqueKeywords m) = length (uniqueKeywords m)"
    by (simp only: setSize_eq_length_iff)
  then have dup: "setSize (uniqueKeywords m) = length (keywords m)"
    by (simp only: length_uniqueKeywords)
  have "score (runChecks m) = 100"
    using assms fb dup by (simp add: score_runChecks)
  then have sc: "score (validateMetadata m) = 100"
    using mathRound_of_int [of 100] by (simp add: score_validateMetadata)
  have iss: "issues (validateMetadata m) =
      (if length (tooShortKeywords m) > 3
       then [shortKeywords (int (length (tooShortKeywords m))) (hd (tooShortKeywords m))]
       else [])"
    using assms fb dup by (simp add: issues_validateMetadata)
  have rc: "recommendations (validateMetadata m) =
      (if length (tooShortKeywords m) > 3 then [replaceShort] else [])"
    using assms fb dup by (simp add: recommendations_validateMetadata)
  show ?thesis
    using sc iss rc by (simp add: tooShortKeywords_def)
qed

text \<open>
  An instance of C2: \<open>sampleMetadata\<close> meets every hypothesis and has no short keyword.
\<close>

theorem compliant_metadata_full_score_witness:
  "20 \<le> length (title sampleMetadata) \<and> length (title sampleMetadata) \<le> 70 \<and>
   5 \<le> length (split (title sampleMetadata)) \<and>
   10 \<le> length (split (description sampleMetadata)) \<and>
   30 \<le> length (keywords sampleMetadata) \<and> length (keywords sampleMetadata) \<le> 50 \<and>
   distinct (map (\<lambda>k. trim (toLowerCase k)) (keywords sampleMetadata)) \<and>
   foundBanned sampleMetadata = [] \<and>
   isAI sampleMetadata \<and>
   includes_str (author sampleMetadata) ''{{author}}'' \<and>
   length (filter (\<lambda>k. length k < 3) (keywords sampleMetadata)) \<le> 3 \<and>
   score (validateMetadata sampleMetadata) = 100 \<and>
   issues (validateMetadata sampleMetadata) = [] \<and>
   recommendations (validateMetadata sampleMetadata) = []"
proof -
  have h1: "20 \<le> length (title sampleMetadata)" by code_simp
  have h2: "length (title sampleMetadata) \<le> 70" by code_simp
  have h3: "5 \<le> length (split (title sampleMetadata))" by code_simp
  have h4: "10 \<le> length (split (description sampleMetadata))" by code_simp
  have h5: "30 \<le> length (keywords sampleMetadata)" by code_simp
  have h6: "length (keywords sampleMetadata) \<le> 50" by code_simp
  have h7: "distinct (map (\<lambda>k. trim (toLowerCase k)) (keywords sampleMetadata))" by code_simp
  have fb: "foundBanned sampleMetadata = []" by code_simp
  then have h8: "\<forall>b\<in>set BANNED_KEYWORDS.
      \<not> includes_str (toLowerCase (title sampleMetadata)) b \<and>
      \<not> includes_str (toLowerCase (description sampleMetadata)) b \<and>
      (\<forall>k\<in>set (keywords sampleMetadata). \<not> includes_str (toLowerCase k) b)"
    by (simp only: foundBanned_Nil_iff)
  have h9: "isAI sampleMetadata" by code_simp
  have h10: "includes_str (author sampleMetadata) ''{{author}}''" by code_simp
  have s: "length (filter (\<lambda>k. length k < 3) (keywords sampleMetadata)) \<le> 3" by code_simp
  note r = compliant_metadata_full_score [OF h1 h2 h3 h4 h5 h6 h7 h8 h9 h10]
  have c1: "score (validateMetadata sampleMetadata) = 100"
    using r by (rule conjunct1)
  have c2: "issues (validateMetadata sampleMetadata) = []"
    and c3: "recommendations (validateMetadata sampleMetadata) = []"
    using r s by blast+
  show ?thesis
    by (intro conjI h1 h2 h3 h4 h5 h6 h7 fb h9 h10 s c1 c2 c3)
qed

text \<open>
  C2 as stated fails: \<open>fourShortKeywords\<close> meets every condition of the claim, yet its
  issue list holds the short-keyword note, because four of its keywords have two letters.
\<close>

theorem compliant_metadata_full_score_counterexample:
  "20 \<le> length (title fourShortKeywords) \<and> length (title fourShortKeywords) \<le> 70 \<and>
   5 \<le> length (split (title fourShortKeywords)) \<and>
   10 \<le> length (split (description fourShortKeywords)) \<and>
   length (keywords fourShortKeywords) = 30 \<and>
   distinct (uniqueKeywords fourShortKeywords) \<and>
   foundBanned fourShortKeywords = [] \<and>
   isAI fourShortKeywords \<and>
   includes_str (author fourShortKeywords) ''{{author}}'' \<and>
   validateMetadata fourShortKeywords =
     \<lparr>score = 100, issues = [shortKeywords 4 ''aa''], recommendations = [replaceShort]\<rparr>"
  by code_simp

subsection \<open>Keyword count\<close>




subsection \<open>Brand and trademark compliance\<close>



subsection \<open>Duplicate keywords\<close>



subsection \<open>Title rules\<close>




subsection \<open>The worked scenario\<close>




subsection \<open>Very short keywords\<close>




subsection \<open>The empty title\<close>



end
